theory Spec2Isabelle
  imports Complex_Main
begin

section \<open>Python values, exceptions and results\<close>

text \<open>
  The metric lives in \<^verbatim>\<open>pyannote/metrics/meeteval_cpwer.py\<close> (class \<^verbatim>\<open>CpWER\<close>).
  A raised exception is a value: every function that can raise returns \<open>error + 'a\<close>,
  with \<open>Inl\<close> the exception. \<open>Raised\<close> stands for an exception of one of the external
  collaborators (the file system, the text normalizer, the alignment library), named by
  its class. Python floats are read as reals: the components are word counts, and no
  claim below is about rounding.
\<close>

datatype error = IndexError | TypeError | KeyError | Raised string

text \<open>
  The hypothesis argument is dynamically typed. The values the code tells apart are
  strings, lists and tuples; \<open>PNone\<close> and \<open>PInt\<close> are the values that can neither be
  indexed nor iterated. A \<open>char\<close> is one code point.
\<close>

datatype pyval = PNone | PInt int | PStr string | PList "pyval list" | PTuple "pyval list"

definition on_ok :: "error + 'a \<Rightarrow> ('a \<Rightarrow> error + 'b) \<Rightarrow> error + 'b" where
  "on_ok m f = (case m of Inl e \<Rightarrow> Inl e | Inr x \<Rightarrow> f x)"

text \<open>A comprehension or loop whose body can raise: the first exception ends it.\<close>

fun map_result :: "('a \<Rightarrow> error + 'b) \<Rightarrow> 'a list \<Rightarrow> error + 'b list" where
  "map_result f [] = Inr []"
| "map_result f (x # xs) =
     (case f x of
        Inl e \<Rightarrow> Inl e
      | Inr y \<Rightarrow> (case map_result f xs of Inl e \<Rightarrow> Inl e | Inr ys \<Rightarrow> Inr (y # ys)))"

text \<open>\<^verbatim>\<open>hypothesis[1]\<close>: the second character of a string (as a string of length one),
  the second element of a list or tuple, IndexError when there is none, TypeError on a
  value that cannot be indexed.\<close>

fun getitem1 :: "pyval \<Rightarrow> error + pyval" where
  "getitem1 (PStr s) = (if 1 < length s then Inr (PStr [s ! 1]) else Inl IndexError)"
| "getitem1 (PList xs) = (if 1 < length xs then Inr (xs ! 1) else Inl IndexError)"
| "getitem1 (PTuple xs) = (if 1 < length xs then Inr (xs ! 1) else Inl IndexError)"
| "getitem1 PNone = Inl TypeError"
| "getitem1 (PInt n) = Inl TypeError"

text \<open>\<^verbatim>\<open>if isinstance(asr_hypothesis, str): asr_hypothesis = [asr_hypothesis]\<close>\<close>

fun wrap_str :: "pyval \<Rightarrow> pyval" where
  "wrap_str (PStr s) = PList [PStr s]"
| "wrap_str v = v"

text \<open>\<^verbatim>\<open>for hyp in asr_hypothesis\<close>: the elements of a list or tuple, the characters of a
  string, TypeError on a value that cannot be iterated.\<close>

fun iterate :: "pyval \<Rightarrow> error + pyval list" where
  "iterate (PList xs) = Inr xs"
| "iterate (PTuple xs) = Inr xs"
| "iterate (PStr s) = Inr (map (\<lambda>c. PStr [c]) s)"
| "iterate PNone = Inl TypeError"
| "iterate (PInt n) = Inl TypeError"

text \<open>\<^verbatim>\<open>file.startswith(uri)\<close>\<close>

definition startswith :: "string \<Rightarrow> string \<Rightarrow> bool" where
  "startswith s p = (take (length p) s = p)"

text \<open>\<^verbatim>\<open>str.strip()\<close>: the white space of Python among the code points below 256.\<close>

definition isspace :: "char \<Rightarrow> bool" where
  "isspace c = (of_char c \<in> set [9, 10, 11, 12, 13, 28, 29, 30, 31, 32, 133, 160 :: nat])"

definition strip :: "string \<Rightarrow> string" where
  "strip s = rev (dropWhile isspace (rev (dropWhile isspace s)))"

text \<open>\<^verbatim>\<open>os.path.join(a, b)\<close> of posixpath, for two parts.\<close>

definition path_join :: "string \<Rightarrow> string \<Rightarrow> string" where
  "path_join a b =
     (if b \<noteq> [] \<and> hd b = CHR ''/'' then b
      else if a = [] \<or> last a = CHR ''/'' then a @ b
      else a @ ''/'' @ b)"

section \<open>The collaborators and the data\<close>

text \<open>The attributes of \<^verbatim>\<open>meeteval\<close>'s error rate that the metric reads.\<close>

record error_rate =
  cp_length :: real
  cp_substitutions :: real
  cp_deletions :: real
  cp_insertions :: real

text \<open>
  What the metric calls and does not define: \<^verbatim>\<open>self.reference_dir\<close>, \<^verbatim>\<open>os.listdir\<close>,
  \<^verbatim>\<open>open(...).read()\<close>, \<^verbatim>\<open>self.normalizer\<close> and \<^verbatim>\<open>cp_word_error_rate\<close>. They are
  parameters of the model; each can raise. The file system does not change during the
  calls that a theorem is about.
\<close>

record env =
  reference_dir :: string
  listdir :: "string \<Rightarrow> error + string list"
  read_file :: "string \<Rightarrow> error + string"
  normalizer :: "pyval \<Rightarrow> error + string"
  cp_word_error_rate :: "string list \<Rightarrow> string list \<Rightarrow> error + error_rate"

text \<open>The reference annotation: the metric reads its attribute \<^verbatim>\<open>_uri\<close> only, which is
  None when the annotation was built without one.\<close>

record annotation =
  ref_uri :: "string option"

type_synonym components = "string \<rightharpoonup> real"

definition metric_name :: string where
  "metric_name = ''CpWER''"

definition metric_components :: "string list" where
  "metric_components = [''length'', ''substitutions'', ''deletions'', ''insertions'']"

text \<open>The dictionary that \<^verbatim>\<open>compute_components\<close> returns.\<close>

definition mk_components :: "real \<Rightarrow> real \<Rightarrow> real \<Rightarrow> real \<Rightarrow> components" where
  "mk_components l s d i =
     [''length'' \<mapsto> l, ''substitutions'' \<mapsto> s, ''deletions'' \<mapsto> d, ''insertions'' \<mapsto> i]"

section \<open>compute_components\<close>

text \<open>The list comprehension over \<^verbatim>\<open>os.listdir\<close>: \<^verbatim>\<open>startswith(None)\<close> raises TypeError at
  the first file name.\<close>

definition references_file_paths :: "env \<Rightarrow> annotation \<Rightarrow> error + string list" where
  "references_file_paths env reference =
     on_ok (listdir env (reference_dir env)) (\<lambda>files.
       case ref_uri reference of
         None \<Rightarrow> (if files = [] then Inr [] else Inl TypeError)
       | Some u \<Rightarrow> Inr (map (path_join (reference_dir env))
                         (filter (\<lambda>file. startswith file u) files)))"

definition read_reference :: "env \<Rightarrow> string \<Rightarrow> error + string" where
  "read_reference env reference_file_path =
     on_ok (read_file env reference_file_path) (\<lambda>txt. normalizer env (PStr (strip txt)))"

definition compute_components :: "env \<Rightarrow> annotation \<Rightarrow> pyval \<Rightarrow> error + components" where
  "compute_components env reference hypothesis =
     on_ok (getitem1 hypothesis) (\<lambda>asr_hypothesis.
     on_ok (references_file_paths env reference) (\<lambda>paths.
     on_ok (map_result (read_reference env) paths) (\<lambda>reference_text.
     on_ok (iterate (wrap_str asr_hypothesis)) (\<lambda>hyps.
     on_ok (map_result (normalizer env) hyps) (\<lambda>asr.
     on_ok (cp_word_error_rate env reference_text asr) (\<lambda>cpwer.
       Inr (mk_components (0 + cp_length cpwer) (0 + cp_substitutions cpwer)
              (0 + cp_deletions cpwer) (0 + cp_insertions cpwer))))))))"

section \<open>compute_metric\<close>

text \<open>\<^verbatim>\<open>components[name]\<close>\<close>

definition getitem :: "components \<Rightarrow> string \<Rightarrow> error + real" where
  "getitem d k = (case d k of None \<Rightarrow> Inl KeyError | Some v \<Rightarrow> Inr v)"

definition zero_length_warning :: string where
  "zero_length_warning =
     ''Denominator (length) is zero while numerator is non-zero. Returning CpWER as 1.0.''"

text \<open>The result is the value together with the warnings that \<^verbatim>\<open>warnings.warn\<close> emitted
  (under the default warning filters a warning is reported and the call goes on).\<close>

definition compute_metric :: "components \<Rightarrow> error + (real \<times> string list)" where
  "compute_metric components =
     on_ok (getitem components ''substitutions'') (\<lambda>s.
     on_ok (getitem components ''deletions'') (\<lambda>d.
     on_ok (getitem components ''insertions'') (\<lambda>i.
     on_ok (getitem components ''length'') (\<lambda>denominator.
       let numerator = s + d + i in
       if denominator = 0 then
         (if numerator = 0 then Inr (0, []) else Inr (1, [zero_length_warning]))
       else Inr (numerator / denominator, [])))))"

section \<open>The metric object and its call\<close>

record metric =
  accumulated :: components
  results :: "(string option \<times> components) list"

text \<open>
  Modelled from the spec: the constructor of the base class \<^verbatim>\<open>BaseMetric\<close>
  (\<^verbatim>\<open>pyannote/metrics/base.py\<close>) sets \<^verbatim>\<open>metric_name_\<close> and \<^verbatim>\<open>components_\<close> from
  \<^verbatim>\<open>metric_name()\<close> and \<^verbatim>\<open>metric_components()\<close>, the running total of every declared
  component to zero and the history to the empty list.
\<close>

definition init_metric :: metric where
  "init_metric = \<lparr>accumulated = mk_components 0 0 0 0, results = []\<rparr>"

text \<open>\<^verbatim>\<open>for name in self.components_: self.accumulated_[name] += components[name]\<close>;
  a missing key ends the loop with the totals as they are by then.\<close>

fun accumulate :: "string list \<Rightarrow> components \<Rightarrow> components \<Rightarrow> error option \<times> components" where
  "accumulate [] acc components = (None, acc)"
| "accumulate (name # names) acc components =
     (case acc name of
        None \<Rightarrow> (Some KeyError, acc)
      | Some a \<Rightarrow>
          (case components name of
             None \<Rightarrow> (Some KeyError, acc)
           | Some v \<Rightarrow> accumulate names (acc(name \<mapsto> a + v)) components))"

datatype retval = Value real | Detailed components

record call_result =
  outcome :: "error + retval"
  after :: metric
  warned :: "string list"

text \<open>\<^verbatim>\<open>__call__\<close>: what it returns or raises, the metric object afterwards, and the
  warnings emitted. The argument \<open>uri\<close> is assigned \<^verbatim>\<open>reference._uri\<close> before it is read.\<close>

definition call :: "env \<Rightarrow> metric \<Rightarrow> annotation \<Rightarrow> pyval \<Rightarrow> bool \<Rightarrow> string option \<Rightarrow> call_result" where
  "call env self reference hypothesis detailed uri =
     (case compute_components env reference hypothesis of
        Inl e \<Rightarrow> \<lparr>outcome = Inl e, after = self, warned = []\<rparr>
      | Inr components0 \<Rightarrow>
          (case compute_metric components0 of
             Inl e \<Rightarrow> \<lparr>outcome = Inl e, after = self, warned = []\<rparr>
           | Inr (v, ws) \<Rightarrow>
               (let components = components0(metric_name \<mapsto> v);
                    uri1 = ref_uri reference;
                    self1 = self\<lparr>results := results self @ [(uri1, components)]\<rparr>;
                    (err, acc) = accumulate metric_components (accumulated self1) components;
                    self2 = self1\<lparr>accumulated := acc\<rparr>
                in case err of
                     Some e \<Rightarrow> \<lparr>outcome = Inl e, after = self2, warned = ws\<rparr>
                   | None \<Rightarrow>
                       \<lparr>outcome = Inr (if detailed then Detailed components else Value v),
                        after = self2, warned = ws\<rparr>)))"

section \<open>Sequences of calls\<close>

text \<open>
  One metric object called on one sample after another, by a caller that catches the
  exception of a failed call and goes on: \<open>run\<close> is the object after the calls,
  \<open>outcomes\<close> what each call returned or raised.
\<close>

type_synonym sample = "annotation \<times> pyval \<times> bool \<times> string option"

fun run :: "env \<Rightarrow> metric \<Rightarrow> sample list \<Rightarrow> metric" where
  "run env self [] = self"
| "run env self ((reference, hypothesis, detailed, uri) # rest) =
     run env (after (call env self reference hypothesis detailed uri)) rest"

fun outcomes :: "env \<Rightarrow> metric \<Rightarrow> sample list \<Rightarrow> (error + retval) list" where
  "outcomes env self [] = []"
| "outcomes env self ((reference, hypothesis, detailed, uri) # rest) =
     outcome (call env self reference hypothesis detailed uri)
       # outcomes env (after (call env self reference hypothesis detailed uri)) rest"

text \<open>The history entry of a sample: the identifier of its reference and its components
  with the rate stored under the name of the metric; none when the components cannot be
  computed.\<close>

definition history_entry :: "env \<Rightarrow> sample \<Rightarrow> (string option \<times> components) list" where
  "history_entry env smp =
     (case smp of (reference, hypothesis, detailed, uri) \<Rightarrow>
        (case compute_components env reference hypothesis of
           Inl e \<Rightarrow> []
         | Inr c \<Rightarrow>
             (case compute_metric c of
                Inl e \<Rightarrow> []
              | Inr (v, ws) \<Rightarrow> [(ref_uri reference, c(metric_name \<mapsto> v))])))"

text \<open>Every declared component has a running total.\<close>

definition totals_present :: "metric \<Rightarrow> bool" where
  "totals_present self = (list_all (\<lambda>name. accumulated self name \<noteq> None) metric_components)"

section \<open>A small corpus\<close>

text \<open>
  A directory with three reference files, of which the third cannot be read; a normalizer
  that accepts strings and returns them as they are; an alignment stub with a fixed
  result for each of the two readable references, that counts every hypothesis text as
  an insertion when there is no reference text, and that rejects anything else.
\<close>

definition ex_normalizer :: "pyval \<Rightarrow> error + string" where
  "ex_normalizer v = (case v of PStr s \<Rightarrow> Inr s | _ \<Rightarrow> Inl TypeError)"

definition ex_alignment :: "string list \<Rightarrow> string list \<Rightarrow> error + error_rate" where
  "ex_alignment refs hyps =
     (if refs = [''a''] then
        Inr \<lparr>cp_length = 10, cp_substitutions = 1, cp_deletions = 0, cp_insertions = 0\<rparr>
      else if refs = [''b''] then
        Inr \<lparr>cp_length = 1, cp_substitutions = 1, cp_deletions = 0, cp_insertions = 0\<rparr>
      else if refs = [] then
        Inr \<lparr>cp_length = 0, cp_substitutions = 0, cp_deletions = 0,
             cp_insertions = real (length hyps)\<rparr>
      else Inl (Raised ''ValueError''))"

definition ex_env :: env where
  "ex_env =
     \<lparr>reference_dir = ''refs'',
      listdir = (\<lambda>d. if d = ''refs'' then Inr [''A.txt'', ''B.txt'', ''C.txt'']
                     else Inl (Raised ''FileNotFoundError'')),
      read_file = (\<lambda>p. if p = ''refs/A.txt'' then Inr [CHR '' '', CHR ''a'', CHR 0x0A]
                       else if p = ''refs/B.txt'' then Inr ''b''
                       else Inl (Raised ''PermissionError'')),
      normalizer = ex_normalizer,
      cp_word_error_rate = ex_alignment\<rparr>"

definition ex_ref :: "string \<Rightarrow> annotation" where
  "ex_ref u = \<lparr>ref_uri = Some u\<rparr>"

text \<open>A hypothesis of the shape the code expects: (diarization, asr_hypothesis, sources).\<close>

definition ex_hyp :: "pyval \<Rightarrow> pyval" where
  "ex_hyp asr = PTuple [PNone, asr, PNone]"

section \<open>Auxiliary facts\<close>

lemma getitem_Some: "c k = Some v \<Longrightarrow> getitem c k = Inr v"
  by (simp add: getitem_def)

lemma ex_env_fields:
  "reference_dir ex_env = ''refs''"
  "listdir ex_env ''refs'' = Inr [''A.txt'', ''B.txt'', ''C.txt'']"
  "read_file ex_env ''refs/A.txt'' = Inr [CHR '' '', CHR ''a'', CHR 0x0A]"
  "read_file ex_env ''refs/B.txt'' = Inr ''b''"
  "read_file ex_env ''refs/C.txt'' = Inl (Raised ''PermissionError'')"
  "normalizer ex_env (PStr s) = Inr s"
  "cp_word_error_rate ex_env = ex_alignment"
  by (simp_all add: ex_env_def ex_normalizer_def)

lemma ex_paths:
  "references_file_paths ex_env (ex_ref ''A'') = Inr [''refs/A.txt'']"
  "references_file_paths ex_env (ex_ref ''B'') = Inr [''refs/B.txt'']"
  "references_file_paths ex_env (ex_ref ''C'') = Inr [''refs/C.txt'']"
  "references_file_paths ex_env (ex_ref ''D'') = Inr []"
  by (simp_all add: references_file_paths_def ex_env_fields ex_ref_def on_ok_def
      startswith_def path_join_def)

lemma ex_read:
  "read_reference ex_env ''refs/A.txt'' = Inr ''a''"
  "read_reference ex_env ''refs/B.txt'' = Inr ''b''"
  "read_reference ex_env ''refs/C.txt'' = Inl (Raised ''PermissionError'')"
  by (simp_all add: read_reference_def ex_env_fields on_ok_def strip_def isspace_def)

lemma ex_components_A:
  "compute_components ex_env (ex_ref ''A'') (ex_hyp (PStr ''x'')) = Inr (mk_components 10 1 0 0)"
  by (simp add: compute_components_def ex_paths ex_read ex_env_fields on_ok_def ex_hyp_def
      ex_alignment_def)

lemma ex_components_B:
  "compute_components ex_env (ex_ref ''B'') (ex_hyp (PList [PStr ''x'', PStr ''y''])) = Inr (mk_components 1 1 0 0)"
  by (simp add: compute_components_def ex_paths ex_read ex_env_fields on_ok_def ex_hyp_def
      ex_alignment_def)

lemma ex_components_C:
  "compute_components ex_env (ex_ref ''C'') (ex_hyp (PStr ''x'')) = Inl (Raised ''PermissionError'')"
  by (simp add: compute_components_def ex_paths ex_read ex_env_fields on_ok_def ex_hyp_def
      ex_alignment_def)

lemma ex_components_D:
  "compute_components ex_env (ex_ref ''D'') (ex_hyp (PStr ''x'')) = Inr (mk_components 0 0 0 1)"
  by (simp add: compute_components_def ex_paths ex_read ex_env_fields on_ok_def ex_hyp_def
      ex_alignment_def)

lemma compute_components_shape:
  "compute_components env r h = Inr c \<Longrightarrow> \<exists>l s d i. c = mk_components l s d i"
  by (auto simp: compute_components_def on_ok_def split: sum.splits)

lemma compute_metric_mk:
  "\<exists>v ws. compute_metric (mk_components l s d i) = Inr (v, ws)"
  by (simp add: compute_metric_def on_ok_def getitem_def mk_components_def Let_def)

lemma accumulate_None:
  "accumulate names acc c = (None, acc') \<Longrightarrow> distinct names \<Longrightarrow>
     (\<forall>n \<in> set names. \<exists>a v. acc n = Some a \<and> c n = Some v \<and> acc' n = Some (a + v))
     \<and> (\<forall>k. k \<notin> set names \<longrightarrow> acc' k = acc k)"
proof (induction names arbitrary: acc)
  case Nil
  then show ?case by simp
next
  case (Cons n ns)
  from Cons.prems(1) obtain a v where a: "acc n = Some a" and v: "c n = Some v"
    and rest: "accumulate ns (acc(n \<mapsto> a + v)) c = (None, acc')"
    by (auto split: option.splits)
  from Cons.prems(2) have d: "distinct ns" and nn: "n \<notin> set ns" by simp_all
  from Cons.IH [OF rest d]
  have ih1: "\<forall>m \<in> set ns. \<exists>a' v'. (acc(n \<mapsto> a + v)) m = Some a' \<and> c m = Some v' \<and> acc' m = Some (a' + v')"
    and ih2: "\<forall>k. k \<notin> set ns \<longrightarrow> acc' k = (acc(n \<mapsto> a + v)) k" by simp_all
  from ih2 nn have here: "acc' n = Some (a + v)" by simp
  have there: "\<exists>a' v'. acc m = Some a' \<and> c m = Some v' \<and> acc' m = Some (a' + v')"
    if m: "m \<in> set ns" for m
  proof -
    from m nn have "m \<noteq> n" by auto
    with ih1 m show ?thesis by (metis fun_upd_other)
  qed
  have others: "\<forall>k. k \<notin> set (n # ns) \<longrightarrow> acc' k = acc k"
    using ih2 by simp
  from a v here there others show ?case by auto
qed

lemma accumulate_present:
  "list_all (\<lambda>n. acc n \<noteq> None) names \<Longrightarrow> list_all (\<lambda>n. c n \<noteq> None) names \<Longrightarrow>
     \<exists>acc'. accumulate names acc c = (None, acc') \<and> (\<forall>k. acc k \<noteq> None \<longrightarrow> acc' k \<noteq> None)"
proof (induction names arbitrary: acc)
  case Nil
  then show ?case by simp
next
  case (Cons n ns)
  from Cons.prems obtain a v where a: "acc n = Some a" and v: "c n = Some v" by auto
  have p1: "list_all (\<lambda>m. (acc(n \<mapsto> a + v)) m \<noteq> None) ns"
    using Cons.prems(1) by (simp add: list_all_iff)
  have p2: "list_all (\<lambda>n. c n \<noteq> None) ns" using Cons.prems(2) by simp
  from Cons.IH [OF p1 p2] obtain acc' where
    r: "accumulate ns (acc(n \<mapsto> a + v)) c = (None, acc')"
    and k: "\<forall>k. (acc(n \<mapsto> a + v)) k \<noteq> None \<longrightarrow> acc' k \<noteq> None" by blast
  from k have "\<forall>k. acc k \<noteq> None \<longrightarrow> acc' k \<noteq> None" by auto
  with a v r show ?case by simp
qed

lemma metric_components_distinct: "distinct metric_components"
  by (simp add: metric_components_def)

lemma metric_name_not_component: "n \<in> set metric_components \<Longrightarrow> n \<noteq> metric_name"
  by (auto simp: metric_components_def metric_name_def)

lemma call_Inl:
  "compute_components env r h = Inl e \<Longrightarrow>
     call env self r h d u = \<lparr>outcome = Inl e, after = self, warned = []\<rparr>"
  by (simp add: call_def)

lemma call_Inr:
  assumes "compute_components env r h = Inr c" and "compute_metric c = Inr (v, ws)"
    and "accumulate metric_components (accumulated self) (c(metric_name \<mapsto> v)) = (err, acc)"
  shows "call env self r h d u =
           \<lparr>outcome = (case err of Some e \<Rightarrow> Inl e
                       | None \<Rightarrow> Inr (if d then Detailed (c(metric_name \<mapsto> v)) else Value v)),
            after = \<lparr>accumulated = acc, results = results self @ [(ref_uri r, c(metric_name \<mapsto> v))]\<rparr>,
            warned = ws\<rparr>"
  using assms by (simp add: call_def Let_def split: option.splits)

lemma accumulate_mk:
  "accumulate metric_components (mk_components a b c d) ((mk_components l s dd i)(metric_name \<mapsto> v))
     = (None, mk_components (a + l) (b + s) (c + dd) (d + i))"
  by (auto simp: metric_components_def mk_components_def metric_name_def fun_eq_iff)

lemma call_mk_full:
  assumes "compute_components env r h = Inr (mk_components l s dd i)"
    and "compute_metric (mk_components l s dd i) = Inr (v, ws)"
  shows "call env \<lparr>accumulated = mk_components a b c d, results = hs\<rparr> r h dt u =
           \<lparr>outcome = Inr (if dt then Detailed ((mk_components l s dd i)(metric_name \<mapsto> v))
                           else Value v),
            after = \<lparr>accumulated = mk_components (a + l) (b + s) (c + dd) (d + i),
                     results = hs @ [(ref_uri r, (mk_components l s dd i)(metric_name \<mapsto> v))]\<rparr>,
            warned = ws\<rparr>"
  using call_Inr [OF assms, of "\<lparr>accumulated = mk_components a b c d, results = hs\<rparr>" None
      "mk_components (a + l) (b + s) (c + dd) (d + i)" dt u]
  by (simp add: accumulate_mk)

lemma call_mk:
  assumes "compute_components env r h = Inr (mk_components l s dd i)"
  shows "accumulated (after (call env \<lparr>accumulated = mk_components a b c d, results = hs\<rparr> r h dt u))
           = mk_components (a + l) (b + s) (c + dd) (d + i)"
proof -
  obtain v ws where m: "compute_metric (mk_components l s dd i) = Inr (v, ws)"
    using compute_metric_mk by blast
  show ?thesis by (simp add: call_mk_full [OF assms m])
qed

lemma ex_metric:
  "compute_metric (mk_components 10 1 0 0) = Inr (1 / 10, [])"
  "compute_metric (mk_components 1 1 0 0) = Inr (1, [])"
  "compute_metric (mk_components 11 2 0 0) = Inr (2 / 11, [])"
  "compute_metric (mk_components 0 0 0 1) = Inr (1, [zero_length_warning])"
  by (simp_all add: compute_metric_def on_ok_def getitem_def mk_components_def)

lemma ex_ref_uri: "ref_uri (ex_ref u) = Some u"
  by (simp add: ex_ref_def)

lemma ex_call_A:
  "call ex_env init_metric (ex_ref ''A'') (ex_hyp (PStr ''x'')) dt u =
     \<lparr>outcome = Inr (if dt then Detailed ((mk_components 10 1 0 0)(metric_name \<mapsto> 1 / 10))
                     else Value (1 / 10)),
      after = \<lparr>accumulated = mk_components 10 1 0 0,
               results = [(Some ''A'', (mk_components 10 1 0 0)(metric_name \<mapsto> 1 / 10))]\<rparr>,
      warned = []\<rparr>"
  unfolding init_metric_def
  using call_mk_full [OF ex_components_A ex_metric(1), of 0 0 0 0 "[]" dt u]
  by (simp add: ex_ref_def)

lemma ex_entries:
  "history_entry ex_env (ex_ref ''A'', ex_hyp (PStr ''x''), d, u)
     = [(Some ''A'', (mk_components 10 1 0 0)(metric_name \<mapsto> 1 / 10))]"
  "history_entry ex_env (ex_ref ''B'', ex_hyp (PList [PStr ''x'', PStr ''y'']), d, u)
     = [(Some ''B'', (mk_components 1 1 0 0)(metric_name \<mapsto> 1))]"
  "history_entry ex_env (ex_ref ''C'', ex_hyp (PStr ''x''), d, u) = []"
  by (simp_all add: history_entry_def ex_components_A ex_components_B ex_components_C
      ex_metric ex_ref_uri)

lemma call_step:
  assumes "totals_present self"
  shows "totals_present (after (call env self r h d u))
       \<and> results (after (call env self r h d u)) = results self @ history_entry env (r, h, d, u)
       \<and> length (history_entry env (r, h, d, u))
           = (if isl (outcome (call env self r h d u)) then 0 else 1)"
proof (cases "compute_components env r h")
  case (Inl e)
  with assms show ?thesis by (simp add: call_Inl history_entry_def)
next
  case (Inr c)
  obtain l s dd i where c: "c = mk_components l s dd i"
    using compute_components_shape [OF Inr] by blast
  obtain v ws where m: "compute_metric c = Inr (v, ws)"
    unfolding c using compute_metric_mk by blast
  have keys: "list_all (\<lambda>n. (c(metric_name \<mapsto> v)) n \<noteq> None) metric_components"
    by (simp add: c mk_components_def metric_components_def)
  from assms have tot: "list_all (\<lambda>n. accumulated self n \<noteq> None) metric_components"
    by (simp add: totals_present_def)
  from accumulate_present [OF tot keys] obtain acc where
    a: "accumulate metric_components (accumulated self) (c(metric_name \<mapsto> v)) = (None, acc)"
    and keep: "\<forall>k. accumulated self k \<noteq> None \<longrightarrow> acc k \<noteq> None"
    by blast
  note eq = call_Inr [OF Inr m a, of d u]
  have "list_all (\<lambda>n. acc n \<noteq> None) metric_components"
    using tot keep by (simp add: list_all_iff)
  then have p: "totals_present (after (call env self r h d u))"
    by (simp add: eq totals_present_def)
  have e: "history_entry env (r, h, d, u) = [(ref_uri r, c(metric_name \<mapsto> v))]"
    by (simp add: history_entry_def Inr m)
  from p e show ?thesis by (simp add: eq)
qed

lemma init_totals_present: "totals_present init_metric"
  by (simp add: totals_present_def init_metric_def mk_components_def metric_components_def)

section \<open>compute_metric: the ratio and the empty reference\<close>

text \<open>
  C1. For components with the four fields and a length above zero, \<open>compute_metric\<close>
  returns (substitutions + deletions + insertions) / length, with no warning; and the
  value is a function of the four fields alone: components that agree on them give the
  same result.
\<close>

theorem compute_metric_ratio:
  assumes "c ''length'' = Some l" and "c ''substitutions'' = Some s"
    and "c ''deletions'' = Some d" and "c ''insertions'' = Some i"
    and "0 < l"
    and "c' ''length'' = c ''length''" and "c' ''substitutions'' = c ''substitutions''"
    and "c' ''deletions'' = c ''deletions''" and "c' ''insertions'' = c ''insertions''"
  shows "compute_metric c = Inr ((s + d + i) / l, []) \<and> compute_metric c' = compute_metric c"
proof -
  have one: "compute_metric c = Inr ((s + d + i) / l, [])"
    using assms(1-5) by (simp add: compute_metric_def on_ok_def getitem_Some)
  have two: "compute_metric c' = Inr ((s + d + i) / l, [])"
    using assms by (simp add: compute_metric_def on_ok_def getitem_Some)
  from one two show ?thesis by simp
qed

theorem compute_metric_ratio_witness:
  "compute_metric (mk_components 4 1 2 0) = Inr (3 / 4, [])
   \<and> compute_metric ((mk_components 4 1 2 0)(''CpWER'' \<mapsto> 7)) = compute_metric (mk_components 4 1 2 0)"
  using compute_metric_ratio [of "mk_components 4 1 2 0" 4 1 2 0 "(mk_components 4 1 2 0)(''CpWER'' \<mapsto> 7)"]
  by (simp add: mk_components_def)

text \<open>
  C2. With length zero, \<open>compute_metric\<close> returns 0 when substitutions + deletions +
  insertions is zero, and otherwise returns 1 (it does not raise) and emits one warning.
\<close>

theorem compute_metric_zero_length:
  assumes "c ''length'' = Some 0" and "c ''substitutions'' = Some s"
    and "c ''deletions'' = Some d" and "c ''insertions'' = Some i"
  shows "(s + d + i = 0 \<longrightarrow> compute_metric c = Inr (0, []))
       \<and> (s + d + i \<noteq> 0 \<longrightarrow> compute_metric c = Inr (1, [zero_length_warning]))"
  using assms by (simp add: compute_metric_def on_ok_def getitem_Some)

theorem compute_metric_zero_length_witness:
  "compute_metric (mk_components 0 0 0 0) = Inr (0, [])
   \<and> compute_metric (mk_components 0 1 0 0) = Inr (1, [zero_length_warning])"
  using compute_metric_zero_length [of "mk_components 0 0 0 0" 0 0 0]
    compute_metric_zero_length [of "mk_components 0 1 0 0" 1 0 0]
  by (simp add: mk_components_def)

section \<open>Accumulation over the corpus\<close>

text \<open>
  C3. A call that returns has computed the components of its sample, and each of the four
  running totals is afterwards its value before the call plus the component of the
  sample. Hence two samples with components (l1, s1, d1, i1) and (l2, s2, d2, i2), folded
  into a new metric object, leave the totals (l1 + l2, s1 + s2, d1 + d2, i1 + i2).
\<close>

theorem call_accumulates:
  "(outcome (call env self reference hypothesis detailed uri) = Inr rv \<longrightarrow>
      (\<exists>c. compute_components env reference hypothesis = Inr c \<and>
         (\<forall>name \<in> set metric_components. \<exists>a x.
            accumulated self name = Some a \<and> c name = Some x \<and>
            accumulated (after (call env self reference hypothesis detailed uri)) name
              = Some (a + x))))
   \<and> (compute_components env r1 h1 = Inr (mk_components l1 s1 d1 i1) \<longrightarrow>
      compute_components env r2 h2 = Inr (mk_components l2 s2 d2 i2) \<longrightarrow>
      accumulated (run env init_metric [(r1, h1, dt1, u1), (r2, h2, dt2, u2)])
        = mk_components (l1 + l2) (s1 + s2) (d1 + d2) (i1 + i2))"
proof (intro conjI impI)
  assume ok: "outcome (call env self reference hypothesis detailed uri) = Inr rv"
  show "\<exists>c. compute_components env reference hypothesis = Inr c \<and>
         (\<forall>name \<in> set metric_components. \<exists>a x.
            accumulated self name = Some a \<and> c name = Some x \<and>
            accumulated (after (call env self reference hypothesis detailed uri)) name
              = Some (a + x))"
  proof (cases "compute_components env reference hypothesis")
    case (Inl e)
    with ok show ?thesis by (simp add: call_Inl)
  next
    case (Inr c)
    obtain v ws where m: "compute_metric c = Inr (v, ws)"
      using compute_components_shape [OF Inr] compute_metric_mk by blast
    obtain err acc where
      a: "accumulate metric_components (accumulated self) (c(metric_name \<mapsto> v)) = (err, acc)"
      by (cases "accumulate metric_components (accumulated self) (c(metric_name \<mapsto> v))")
    note eq = call_Inr [OF Inr m a, of detailed uri]
    from ok eq have err: "err = None" by (cases err) simp_all
    from eq have acc: "accumulated (after (call env self reference hypothesis detailed uri)) = acc"
      by simp
    from accumulate_None [OF a [unfolded err] metric_components_distinct]
    have "\<forall>n \<in> set metric_components. \<exists>a x. accumulated self n = Some a
            \<and> (c(metric_name \<mapsto> v)) n = Some x \<and> acc n = Some (a + x)"
      by blast
    then have "\<forall>n \<in> set metric_components. \<exists>a x. accumulated self n = Some a
            \<and> c n = Some x \<and> acc n = Some (a + x)"
      using metric_name_not_component by fastforce
    with Inr acc show ?thesis by simp
  qed
next
  assume c1: "compute_components env r1 h1 = Inr (mk_components l1 s1 d1 i1)"
    and c2: "compute_components env r2 h2 = Inr (mk_components l2 s2 d2 i2)"
  define st where "st = after (call env init_metric r1 h1 dt1 u1)"
  have one: "accumulated st = mk_components l1 s1 d1 i1"
    unfolding st_def init_metric_def using call_mk [OF c1, of 0 0 0 0 "[]" dt1 u1] by simp
  have st: "st = \<lparr>accumulated = mk_components l1 s1 d1 i1, results = results st\<rparr>"
    using one by (cases st) simp
  have two: "accumulated (after (call env st r2 h2 dt2 u2))
               = mk_components (l1 + l2) (s1 + s2) (d1 + d2) (i1 + i2)"
    using call_mk [OF c2, of l1 s1 d1 i1 "results st" dt2 u2] st by simp
  then show "accumulated (run env init_metric [(r1, h1, dt1, u1), (r2, h2, dt2, u2)])
        = mk_components (l1 + l2) (s1 + s2) (d1 + d2) (i1 + i2)"
    by (simp add: st_def)
qed

text \<open>
  At the first two samples of the small corpus.
\<close>

theorem call_accumulates_witness:
  "outcome (call ex_env init_metric (ex_ref ''A'') (ex_hyp (PStr ''x'')) False None)
     = Inr (Value (1 / 10))
   \<and> accumulated (after (call ex_env init_metric (ex_ref ''A'') (ex_hyp (PStr ''x'')) False None))
       ''length'' = Some (0 + 10)
   \<and> accumulated (run ex_env init_metric
        [(ex_ref ''A'', ex_hyp (PStr ''x''), False, None),
         (ex_ref ''B'', ex_hyp (PList [PStr ''x'', PStr ''y'']), False, None)])
       = mk_components (10 + 1) (1 + 1) (0 + 0) (0 + 0)"
proof -
  have ok: "outcome (call ex_env init_metric (ex_ref ''A'') (ex_hyp (PStr ''x'')) False None)
              = Inr (Value (1 / 10))"
    by (simp add: ex_call_A)
  note inst = call_accumulates [of ex_env init_metric "ex_ref ''A''" "ex_hyp (PStr ''x'')" False None
      "Value (1 / 10)" "ex_ref ''A''" "ex_hyp (PStr ''x'')" 10 1 0 0
      "ex_ref ''B''" "ex_hyp (PList [PStr ''x'', PStr ''y''])" 1 1 0 0 False None False None]
  from inst ok have "\<exists>a x. accumulated init_metric ''length'' = Some a
        \<and> mk_components 10 1 0 0 ''length'' = Some x
        \<and> accumulated (after (call ex_env init_metric (ex_ref ''A'') (ex_hyp (PStr ''x'')) False None))
            ''length'' = Some (a + x)"
    by (simp add: ex_components_A metric_components_def)
  then have one: "accumulated (after (call ex_env init_metric (ex_ref ''A'') (ex_hyp (PStr ''x'')) False None))
       ''length'' = Some (0 + 10)"
    by (simp add: init_metric_def mk_components_def)
  from inst have two: "accumulated (run ex_env init_metric
        [(ex_ref ''A'', ex_hyp (PStr ''x''), False, None),
         (ex_ref ''B'', ex_hyp (PList [PStr ''x'', PStr ''y'']), False, None)])
       = mk_components (10 + 1) (1 + 1) (0 + 0) (0 + 0)"
    using ex_components_A ex_components_B by blast
  from ok one two show ?thesis by blast
qed

text \<open>
  C4. The value of the corpus is \<open>compute_metric\<close> on the summed totals: after a sample
  with components (10, 1, 0, 0) and one with (1, 1, 0, 0) it is 2 / 11, while the two calls
  returned the rates 1 / 10 and 1, whose mean is another number.
\<close>

theorem corpus_value_pooled:
  assumes "compute_components env rA hA = Inr (mk_components 10 1 0 0)"
    and "compute_components env rB hB = Inr (mk_components 1 1 0 0)"
  shows "compute_metric (accumulated (run env init_metric [(rA, hA, dA, uA), (rB, hB, dB, uB)]))
           = Inr (2 / 11, [])
       \<and> outcomes env init_metric [(rA, hA, False, uA), (rB, hB, False, uB)]
           = [Inr (Value (1 / 10)), Inr (Value 1)]
       \<and> (2 / 11 :: real) \<noteq> (1 / 10 + 1) / 2"
proof -
  have a1: "call env init_metric rA hA d u =
     \<lparr>outcome = Inr (if d then Detailed ((mk_components 10 1 0 0)(metric_name \<mapsto> 1 / 10))
                     else Value (1 / 10)),
      after = \<lparr>accumulated = mk_components 10 1 0 0,
               results = [(ref_uri rA, (mk_components 10 1 0 0)(metric_name \<mapsto> 1 / 10))]\<rparr>,
      warned = []\<rparr>" for d u
    unfolding init_metric_def
    using call_mk_full [OF assms(1) ex_metric(1), of 0 0 0 0 "[]" d u] by simp
  have a2: "call env \<lparr>accumulated = mk_components 10 1 0 0, results = hs\<rparr> rB hB d u =
     \<lparr>outcome = Inr (if d then Detailed ((mk_components 1 1 0 0)(metric_name \<mapsto> 1)) else Value 1),
      after = \<lparr>accumulated = mk_components 11 2 0 0,
               results = hs @ [(ref_uri rB, (mk_components 1 1 0 0)(metric_name \<mapsto> 1))]\<rparr>,
      warned = []\<rparr>" for d u hs
    using call_mk_full [OF assms(2) ex_metric(2), of 10 1 0 0 hs d u] by simp
  have pooled: "compute_metric (accumulated (run env init_metric [(rA, hA, dA, uA), (rB, hB, dB, uB)]))
           = Inr (2 / 11, [])"
    by (simp add: a1 a2 ex_metric(3))
  have each: "outcomes env init_metric [(rA, hA, False, uA), (rB, hB, False, uB)]
           = [Inr (Value (1 / 10)), Inr (Value 1)]"
    by (simp add: a1 a2)
  have "(2 / 11 :: real) \<noteq> (1 / 10 + 1) / 2" by simp
  with pooled each show ?thesis by blast
qed

text \<open>
  The two readable references of the small corpus are such samples.
\<close>

theorem corpus_value_pooled_witness:
  "compute_metric (accumulated (run ex_env init_metric
        [(ex_ref ''A'', ex_hyp (PStr ''x''), False, None),
         (ex_ref ''B'', ex_hyp (PList [PStr ''x'', PStr ''y'']), True, None)]))
     = Inr (2 / 11, [])"
  using corpus_value_pooled [OF ex_components_A ex_components_B] by blast

section \<open>The history and failed calls\<close>

text \<open>
  C5. On a metric object that has a total for every component (as a new one has, and as
  every call keeps), the history after a sequence of calls is the history before,
  followed by one entry per call whose components could be computed, in the order of the
  calls; its length grows by the number of calls that returned. A call that raised adds
  no entry.
\<close>

theorem history_append_only:
  assumes "totals_present self"
  shows "results (run env self calls) = results self @ concat (map (history_entry env) calls)
       \<and> length (results (run env self calls))
           = length (results self) + length (filter (\<lambda>r. \<not> isl r) (outcomes env self calls))"
  using assms
proof (induction calls arbitrary: self)
  case Nil
  then show ?case by simp
next
  case (Cons smp rest)
  obtain r h d u where smp: "smp = (r, h, d, u)" by (cases smp) auto
  note step = call_step [OF Cons.prems, of env r h d u]
  from step have p: "totals_present (after (call env self r h d u))" by simp
  note ih = Cons.IH [OF p]
  have ih1: "results (run env (after (call env self r h d u)) rest)
               = results (after (call env self r h d u)) @ concat (map (history_entry env) rest)"
    and ih2: "length (results (run env (after (call env self r h d u)) rest))
               = length (results (after (call env self r h d u)))
                 + length (filter (\<lambda>r. \<not> isl r) (outcomes env (after (call env self r h d u)) rest))"
    using ih [THEN conjunct1] ih [THEN conjunct2] by blast+
  from step have s1: "results (after (call env self r h d u))
                        = results self @ history_entry env (r, h, d, u)"
    and s2: "length (history_entry env (r, h, d, u))
               = (if isl (outcome (call env self r h d u)) then 0 else 1)"
    by simp_all
  have one: "results (run env self (smp # rest))
               = results self @ concat (map (history_entry env) (smp # rest))"
    using ih1 s1 by (simp add: smp)
  have "length (results (after (call env self r h d u)))
          = length (results self) + (if isl (outcome (call env self r h d u)) then 0 else 1)"
    using s1 s2 by simp
  with ih2 have two: "length (results (run env self (smp # rest)))
           = length (results self) + length (filter (\<lambda>r. \<not> isl r) (outcomes env self (smp # rest)))"
    by (simp add: smp)
  from one two show ?case by blast
qed

text \<open>
  Three calls on a new object, of which the second fails: two entries, in call order.
\<close>

theorem history_append_only_witness:
  "totals_present init_metric
   \<and> results (run ex_env init_metric
        [(ex_ref ''A'', ex_hyp (PStr ''x''), False, None),
         (ex_ref ''C'', ex_hyp (PStr ''x''), False, None),
         (ex_ref ''B'', ex_hyp (PList [PStr ''x'', PStr ''y'']), True, None)])
     = [(Some ''A'', (mk_components 10 1 0 0)(metric_name \<mapsto> 1 / 10)),
        (Some ''B'', (mk_components 1 1 0 0)(metric_name \<mapsto> 1))]"
  using history_append_only [OF init_totals_present, of ex_env
      "[(ex_ref ''A'', ex_hyp (PStr ''x''), False, None),
        (ex_ref ''C'', ex_hyp (PStr ''x''), False, None),
        (ex_ref ''B'', ex_hyp (PList [PStr ''x'', PStr ''y'']), True, None)]"]
    init_totals_present
  by (simp add: ex_entries init_metric_def del: run.simps outcomes.simps)

text \<open>
  C6. When the computation of the components raises (the directory listing, a file
  read, the normalizer, the alignment or the indexing of the hypothesis), the call raises
  the same exception and the metric object is the one before the call: totals and
  history are unchanged.
\<close>

theorem failed_call_changes_nothing:
  assumes "compute_components env reference hypothesis = Inl e"
  shows "outcome (call env self reference hypothesis detailed uri) = Inl e
       \<and> after (call env self reference hypothesis detailed uri) = self
       \<and> accumulated (after (call env self reference hypothesis detailed uri)) = accumulated self
       \<and> results (after (call env self reference hypothesis detailed uri)) = results self"
  by (simp add: call_Inl [OF assms])

text \<open>
  A file that cannot be read, after one sample was folded in.
\<close>

theorem failed_call_changes_nothing_witness:
  "outcome (call ex_env
       (after (call ex_env init_metric (ex_ref ''A'') (ex_hyp (PStr ''x'')) False None))
       (ex_ref ''C'') (ex_hyp (PStr ''x'')) False None) = Inl (Raised ''PermissionError'')
   \<and> after (call ex_env
       (after (call ex_env init_metric (ex_ref ''A'') (ex_hyp (PStr ''x'')) False None))
       (ex_ref ''C'') (ex_hyp (PStr ''x'')) False None)
     = \<lparr>accumulated = mk_components 10 1 0 0,
        results = [(Some ''A'', (mk_components 10 1 0 0)(metric_name \<mapsto> 1 / 10))]\<rparr>"
  using failed_call_changes_nothing [OF ex_components_C,
      of "after (call ex_env init_metric (ex_ref ''A'') (ex_hyp (PStr ''x'')) False None)" False None]
  by (simp add: ex_call_A)

section \<open>The hypothesis argument\<close>

text \<open>
  C7, as stated, fails: the code indexes the hypothesis before it wraps. A bare string
  \<open>''ab''\<close> is read as its second character, and the one-element list of the same string
  raises IndexError.
\<close>

theorem bare_string_indexed_counterexample:
  "compute_components ex_env (ex_ref ''A'') (PStr ''ab'') = Inr (mk_components 10 1 0 0)
   \<and> compute_components ex_env (ex_ref ''A'') (PList [PStr ''ab'']) = Inl IndexError"
  by (simp add: compute_components_def ex_paths ex_read ex_env_fields on_ok_def ex_alignment_def)

text \<open>
  C7, amended. The wrapping applies to the element at index 1 of the hypothesis: a
  hypothesis whose element at index 1 is the bare string \<open>s\<close> gives the same result as
  one whose element at index 1 is the one-element list of \<open>s\<close>.
\<close>

theorem wrapping_at_index1:
  assumes "getitem1 h = Inr (PStr s)" and "getitem1 h' = Inr (PList [PStr s])"
  shows "compute_components env reference h = compute_components env reference h'"
  using assms by (simp add: compute_components_def on_ok_def split: sum.splits)

text \<open>
  With the transcription of the first sample given once bare and once in a list.
\<close>

theorem wrapping_at_index1_witness:
  "compute_components ex_env (ex_ref ''A'') (ex_hyp (PList [PStr ''x'']))
     = Inr (mk_components 10 1 0 0)"
proof -
  have a: "getitem1 (ex_hyp (PStr ''x'')) = Inr (PStr ''x'')"
    and b: "getitem1 (ex_hyp (PList [PStr ''x''])) = Inr (PList [PStr ''x''])"
    by (simp_all add: ex_hyp_def)
  from wrapping_at_index1 [OF a b, of ex_env "ex_ref ''A''"] show ?thesis
    by (simp add: ex_components_A)
qed

lemma getitem1_iterate:
  "iterate h = Inr xs \<Longrightarrow> 1 < length xs \<Longrightarrow> getitem1 h = Inr (xs ! 1)"
  by (cases h) auto

lemma getitem1_short:
  "iterate h = Inr xs \<Longrightarrow> length xs < 2 \<Longrightarrow> getitem1 h = Inl IndexError"
  by (cases h) auto

lemma getitem1_not_indexable:
  "iterate h = Inl e \<Longrightarrow> getitem1 h = Inl TypeError"
  by (cases h) auto

text \<open>
  C10. \<open>compute_components\<close> reads the hypothesis through its element at index 1 only.
  Two lists or tuples of length two or more with the same element at index 1 give the
  same result, for every reference, whatever their other elements and their lengths.
  The same holds of any two hypotheses whose sequences of elements (\<open>iterate\<close>: the
  elements of a list or tuple, the characters of a string) agree at index 1. A sequence
  with fewer than two elements gives IndexError and a value that is no sequence gives
  TypeError, before any collaborator is called.
\<close>

theorem only_index1_is_read:
  "(1 < length xs \<and> 1 < length ys \<and> xs ! 1 = ys ! 1 \<longrightarrow>
      compute_components env reference (PList xs) = compute_components env reference (PList ys)
      \<and> compute_components env reference (PTuple xs) = compute_components env reference (PTuple ys)
      \<and> compute_components env reference (PList xs) = compute_components env reference (PTuple ys))
   \<and> (iterate h1 = Inr es1 \<and> iterate h2 = Inr es2 \<and> 1 < length es1 \<and> 1 < length es2
       \<and> es1 ! 1 = es2 ! 1 \<longrightarrow>
      compute_components env reference h1 = compute_components env reference h2)
   \<and> (iterate h1 = Inr es1 \<and> length es1 < 2 \<longrightarrow>
      compute_components env reference h1 = Inl IndexError)
   \<and> (iterate h1 = Inl e \<longrightarrow> compute_components env reference h1 = Inl TypeError)"
proof (intro conjI impI)
  assume a: "1 < length xs \<and> 1 < length ys \<and> xs ! 1 = ys ! 1"
  then have "getitem1 (PList xs) = getitem1 (PList ys)"
    and "getitem1 (PTuple xs) = getitem1 (PTuple ys)"
    and "getitem1 (PList xs) = getitem1 (PTuple ys)"
    by simp_all
  then show "compute_components env reference (PList xs) = compute_components env reference (PList ys)"
    and "compute_components env reference (PTuple xs) = compute_components env reference (PTuple ys)"
    and "compute_components env reference (PList xs) = compute_components env reference (PTuple ys)"
    by (simp_all add: compute_components_def)
next
  assume a: "iterate h1 = Inr es1 \<and> iterate h2 = Inr es2 \<and> 1 < length es1 \<and> 1 < length es2
       \<and> es1 ! 1 = es2 ! 1"
  then have "getitem1 h1 = Inr (es1 ! 1)" and "getitem1 h2 = Inr (es2 ! 1)"
    by (simp_all add: getitem1_iterate)
  with a have "getitem1 h1 = getitem1 h2" by simp
  then show "compute_components env reference h1 = compute_components env reference h2"
    by (simp add: compute_components_def)
next
  assume "iterate h1 = Inr es1 \<and> length es1 < 2"
  then have "getitem1 h1 = Inl IndexError" by (simp add: getitem1_short)
  then show "compute_components env reference h1 = Inl IndexError"
    by (simp add: compute_components_def on_ok_def)
next
  assume "iterate h1 = Inl e"
  then have "getitem1 h1 = Inl TypeError" by (simp add: getitem1_not_indexable)
  then show "compute_components env reference h1 = Inl TypeError"
    by (simp add: compute_components_def on_ok_def)
qed

text \<open>
  A list of two elements and a string of three characters that share only the element at
  index 1 with the hypothesis of the first sample, which is a tuple of three; a tuple that
  is too short; and a hypothesis that is no sequence.
\<close>

theorem only_index1_is_read_witness:
  "compute_components ex_env (ex_ref ''A'') (PList [PInt 7, PStr ''x'']) = Inr (mk_components 10 1 0 0)
   \<and> compute_components ex_env (ex_ref ''A'') (PStr ''axb'')
       = compute_components ex_env (ex_ref ''A'') (PList [PInt 7, PStr ''x'', PStr ''y''])
   \<and> compute_components ex_env (ex_ref ''A'') (PTuple [PStr ''x'']) = Inl IndexError
   \<and> compute_components ex_env (ex_ref ''A'') PNone = Inl TypeError"
proof -
  have agree: "1 < length [PInt 7, PStr ''x''] \<and> 1 < length [PNone, PStr ''x'', PNone]
      \<and> [PInt 7, PStr ''x''] ! 1 = [PNone, PStr ''x'', PNone] ! 1"
    by simp
  have "compute_components ex_env (ex_ref ''A'') (PList [PInt 7, PStr ''x''])
          = compute_components ex_env (ex_ref ''A'') (PTuple [PNone, PStr ''x'', PNone])"
    using only_index1_is_read [where xs = "[PInt 7, PStr ''x'']"
        and ys = "[PNone, PStr ''x'', PNone]" and env = ex_env and reference = "ex_ref ''A''"]
      agree
    by blast
  then have one: "compute_components ex_env (ex_ref ''A'') (PList [PInt 7, PStr ''x''])
               = Inr (mk_components 10 1 0 0)"
    using ex_components_A by (simp add: ex_hyp_def)
  have two: "compute_components ex_env (ex_ref ''A'') (PStr ''axb'')
       = compute_components ex_env (ex_ref ''A'') (PList [PInt 7, PStr ''x'', PStr ''y''])"
    using only_index1_is_read [where ?h1.0 = "PStr ''axb''"
        and ?h2.0 = "PList [PInt 7, PStr ''x'', PStr ''y'']"
        and ?es1.0 = "[PStr ''a'', PStr ''x'', PStr ''b'']"
        and ?es2.0 = "[PInt 7, PStr ''x'', PStr ''y'']"
        and env = ex_env and reference = "ex_ref ''A''"]
    by simp
  have three: "compute_components ex_env (ex_ref ''A'') (PTuple [PStr ''x'']) = Inl IndexError"
    using only_index1_is_read [where ?h1.0 = "PTuple [PStr ''x'']" and ?es1.0 = "[PStr ''x'']"
        and env = ex_env and reference = "ex_ref ''A''"]
    by simp
  have four: "compute_components ex_env (ex_ref ''A'') PNone = Inl TypeError"
    using only_index1_is_read [where ?h1.0 = PNone and e = TypeError
        and env = ex_env and reference = "ex_ref ''A''"]
    by simp
  from one two three four show ?thesis by blast
qed

section \<open>The sample identifier\<close>

text \<open>
  The argument \<open>uri\<close> of a call has no influence on what the call does.
\<close>

lemma call_uri_irrelevant:
  "call env self reference hypothesis detailed uri = call env self reference hypothesis detailed None"
  by (simp add: call_def)

text \<open>
  C8. The call below passes \<open>uri = ''B''\<close> with a reference whose own identifier is
  \<open>''A''\<close>. The components are those of the reference file of A (the file of B would give
  (1, 1, 0, 0)), and the key of the history entry is \<open>''A''\<close>: the argument, documented as
  an override, is not used.
\<close>

theorem uri_argument_ignored:
  "outcome (call ex_env init_metric (ex_ref ''A'') (ex_hyp (PStr ''x'')) False (Some ''B''))
     = Inr (Value (1 / 10))
   \<and> results (after (call ex_env init_metric (ex_ref ''A'') (ex_hyp (PStr ''x'')) False (Some ''B'')))
     = [(Some ''A'', (mk_components 10 1 0 0)(metric_name \<mapsto> 1 / 10))]
   \<and> compute_components ex_env (ex_ref ''B'') (ex_hyp (PStr ''x'')) = Inr (mk_components 1 1 0 0)"
proof -
  have "compute_components ex_env (ex_ref ''B'') (ex_hyp (PStr ''x'')) = Inr (mk_components 1 1 0 0)"
    by (simp add: compute_components_def ex_paths ex_read ex_env_fields on_ok_def
        ex_hyp_def ex_alignment_def)
  then show ?thesis by (simp add: ex_call_A)
qed

section \<open>A reference that resolves to no file\<close>

text \<open>
  C9, as stated, fails: no file name of the small corpus starts with \<open>''D''\<close>, and the
  components are computed from the empty list of reference texts.
\<close>

theorem no_reference_counterexample:
  "references_file_paths ex_env (ex_ref ''D'') = Inr []
   \<and> compute_components ex_env (ex_ref ''D'') (ex_hyp (PStr ''x'')) = Inr (mk_components 0 0 0 1)"
  by (simp add: ex_paths ex_components_D)

text \<open>
  C9, amended. When no file name in the reference directory starts with the identifier
  of the reference, \<open>compute_components\<close> raises nothing for that: it hands the empty
  list of reference texts and the normalized hypothesis texts to the alignment, and
  returns the components of its result, or the exception the alignment raises.
\<close>

theorem no_reference_proceeds:
  assumes "listdir env (reference_dir env) = Inr files"
    and "ref_uri reference = Some u"
    and "\<forall>file \<in> set files. \<not> startswith file u"
    and "getitem1 hypothesis = Inr a"
    and "iterate (wrap_str a) = Inr hyps"
    and "map_result (normalizer env) hyps = Inr asr"
  shows "compute_components env reference hypothesis =
           (case cp_word_error_rate env [] asr of
              Inl e \<Rightarrow> Inl e
            | Inr cpwer \<Rightarrow>
                Inr (mk_components (cp_length cpwer) (cp_substitutions cpwer)
                       (cp_deletions cpwer) (cp_insertions cpwer)))"
proof -
  from assms(3) have "filter (\<lambda>file. startswith file u) files = []"
    by (simp add: filter_empty_conv)
  with assms(1,2) have "references_file_paths env reference = Inr []"
    by (simp add: references_file_paths_def on_ok_def)
  with assms(4-6) show ?thesis
    by (simp add: compute_components_def on_ok_def)
qed

text \<open>
  At the identifier \<open>''D''\<close> of the small corpus.
\<close>

theorem no_reference_proceeds_witness:
  "compute_components ex_env (ex_ref ''D'') (ex_hyp (PStr ''x''))
     = (case cp_word_error_rate ex_env [] [''x''] of
          Inl e \<Rightarrow> Inl e
        | Inr cpwer \<Rightarrow>
            Inr (mk_components (cp_length cpwer) (cp_substitutions cpwer)
                   (cp_deletions cpwer) (cp_insertions cpwer)))"
proof -
  have 1: "listdir ex_env (reference_dir ex_env) = Inr [''A.txt'', ''B.txt'', ''C.txt'']"
    by (simp add: ex_env_fields)
  have 2: "ref_uri (ex_ref ''D'') = Some ''D''" by (simp add: ex_ref_uri)
  have 3: "\<forall>file \<in> set [''A.txt'', ''B.txt'', ''C.txt'']. \<not> startswith file ''D''"
    by (simp add: startswith_def)
  have 4: "getitem1 (ex_hyp (PStr ''x'')) = Inr (PStr ''x'')" by (simp add: ex_hyp_def)
  have 5: "iterate (wrap_str (PStr ''x'')) = Inr [PStr ''x'']" by simp
  have 6: "map_result (normalizer ex_env) [PStr ''x''] = Inr [''x'']"
    by (simp add: ex_env_fields)
  from no_reference_proceeds [OF 1 2 3 4 5 6] show ?thesis .
qed

end
